theory Spec2Isabelle
  imports Main "HOL-Library.Sublist"
begin

section \<open>The GitLab issue publishing action\<close>

text \<open>
  The repository holds two versions of one scaffolder action,
  \<^verbatim>\<open>publish:gitlab:create-issue\<close>: the earlier one in \<^verbatim>\<open>src/unnamed/part_000\<close>
  and the later one in \<^verbatim>\<open>publish/gitlabIssue.ts\<close>. Each is a single asynchronous
  \<^verbatim>\<open>handler(ctx)\<close>. The handler is embedded as a function from an environment (the
  collaborators it calls) and the context to the sequence of effects it performs,
  in program order, together with the way it finishes: \<open>Inr ()\<close> when the
  promise resolves, \<open>Inl e\<close> when it rejects with \<open>e\<close>.
\<close>

subsection \<open>Values of the host language\<close>

text \<open>
  A thrown value. \<open>InputError m\<close> is \<^verbatim>\<open>new InputError(m)\<close> of
  \<^verbatim>\<open>@backstage/errors\<close>; \<open>ThrownError n m\<close> is any other error object, with its
  \<^verbatim>\<open>name\<close> and its \<^verbatim>\<open>message\<close>.
\<close>

datatype js_error = InputError string | ThrownError string string

fun error_name :: "js_error \<Rightarrow> string" where
  "error_name (InputError m) = ''InputError''"
| "error_name (ThrownError n m) = n"

fun error_message :: "js_error \<Rightarrow> string" where
  "error_message (InputError m) = m"
| "error_message (ThrownError n m) = m"

text \<open>
  What the template literal \<^verbatim>\<open>${e}\<close> yields for an error object
  (\<^verbatim>\<open>Error.prototype.toString\<close>): the message alone when the name is empty, the
  name alone when the message is empty, and \<^verbatim>\<open>name: message\<close> otherwise.
\<close>

definition error_toString :: "js_error \<Rightarrow> string" where
  "error_toString e =
     (if error_name e = [] then error_message e
      else if error_message e = [] then error_name e
      else error_name e @ '': '' @ error_message e)"

text \<open>
  An optional string property (\<^verbatim>\<open>token?: string\<close>) is \<open>None\<close> when it is
  \<^verbatim>\<open>undefined\<close>. In a condition the empty string is falsy as well, whereas the
  operator \<^verbatim>\<open>??\<close> replaces \<^verbatim>\<open>undefined\<close> only.
\<close>

fun truthy :: "string option \<Rightarrow> bool" where
  "truthy None = False"
| "truthy (Some s) = (s \<noteq> [])"

fun nullish :: "'a option \<Rightarrow> 'a option \<Rightarrow> 'a option" where
  "nullish None d = d"
| "nullish (Some v) d = Some v"

text \<open>\<^verbatim>\<open>Array.prototype.join(sep)\<close> on an array of strings.\<close>

fun js_join :: "string \<Rightarrow> string list \<Rightarrow> string" where
  "js_join sep [] = []"
| "js_join sep [x] = x"
| "js_join sep (x # y # ys) = x @ sep @ js_join sep (y # ys)"

subsection \<open>Data\<close>

text \<open>The result of \<^verbatim>\<open>parseRepoUrl\<close>.\<close>

record repo_locator =
  host :: string
  owner :: string
  repo :: string

text \<open>\<^verbatim>\<open>integrationConfig.config\<close>, as far as the handler reads it.\<close>

record integration_config =
  baseUrl :: string
  config_token :: "string option"

text \<open>
  \<^verbatim>\<open>ctx.input\<close>. Both handlers read \<^verbatim>\<open>ctx.input.token\<close>; the later version no
  longer declares it, so there it is whatever the caller put into the input object.
\<close>

record action_input =
  repoUrl :: string
  title :: string
  targetPath :: string
  token :: "string option"
  projectid :: "string option"

record action_context =
  input :: action_input
  workspacePath :: string

text \<open>
  One entry of the array that \<^verbatim>\<open>serializeDirectoryContents\<close> resolves to;
  \<open>content\<close> stands for \<^verbatim>\<open>file.content.toString()\<close>, the text of the buffer.
\<close>

record serialized_file =
  path :: string
  content :: string

text \<open>
  The options object given to \<^verbatim>\<open>new Gitlab\<close>: the host and one computed key
  \<^verbatim>\<open>[tokenType]: token\<close>. The constructed client is identified with its options.
\<close>

record gitlab_options =
  api_host :: string
  api_tokenType :: string
  api_token :: "string option"

record project =
  project_id :: int

record issue =
  issue_title :: string
  issue_description :: "string option"
  issue_labels :: "string list"

record issue_res =
  web_url :: string

subsection \<open>Effects\<close>

text \<open>
  The calls of the handler that are visible outside it. \<open>ConsoleLog\<close> keeps
  the label (the first argument) of a \<^verbatim>\<open>console.log\<close> call and drops the object
  printed after it.
\<close>

datatype event =
    LoggerWarn string
  | ConsoleWarn string
  | ConsoleLog string
  | NewGitlab gitlab_options
  | SerializeDirectoryContents string
  | ProjectsShow gitlab_options string
  | IssuesCreate gitlab_options int issue
  | Output string string

text \<open>
  The collaborators whose code is not part of the sources at hand, as parameters:
  each answers a call with a value or with the error it throws (rejects with).
  \<open>parseRepoUrl\<close> is applied to the registry that the action was created with,
  \<open>byHost\<close> is \<^verbatim>\<open>integrations.gitlab.byHost\<close> followed by \<^verbatim>\<open>.config\<close>, and
  \<open>serializeDirectoryContents\<close> is called with the options \<^verbatim>\<open>{gitignore: true}\<close>.
\<close>

record environment =
  parseRepoUrl :: "string \<Rightarrow> js_error + repo_locator"
  byHost :: "string \<Rightarrow> integration_config option"
  serializeDirectoryContents :: "string \<Rightarrow> js_error + serialized_file list"
  Projects_show :: "gitlab_options \<Rightarrow> string \<Rightarrow> js_error + project"
  Issues_create :: "gitlab_options \<Rightarrow> int \<Rightarrow> issue \<Rightarrow> js_error + issue_res"

text \<open>
  A run: the effects so far, and either the error thrown or the value computed.
\<close>

type_synonym 'a run = "event list \<times> (js_error + 'a)"

definition ret :: "'a \<Rightarrow> 'a run" where
  "ret x = ([], Inr x)"

definition throw :: "js_error \<Rightarrow> 'a run" where
  "throw e = ([], Inl e)"

definition emit :: "event \<Rightarrow> unit run" where
  "emit ev = ([ev], Inr ())"

text \<open>The answer of a synchronous helper that has no effect of its own.\<close>

definition answer :: "js_error + 'a \<Rightarrow> 'a run" where
  "answer r = ([], r)"

text \<open>A call of a collaborator: the call is recorded, then its answer is taken.\<close>

definition call :: "event \<Rightarrow> js_error + 'a \<Rightarrow> 'a run" where
  "call ev r = ([ev], r)"

text \<open>The effects \<open>tr\<close> happen, then the run \<open>m\<close>.\<close>

definition after :: "event list \<Rightarrow> 'a run \<Rightarrow> 'a run" where
  "after tr m = (tr @ fst m, snd m)"

text \<open>Sequencing: an error ends the run, and the rest is not executed.\<close>

definition bind :: "'a run \<Rightarrow> ('a \<Rightarrow> 'b run) \<Rightarrow> 'b run" where
  "bind m f =
     (case snd m of
        Inl e \<Rightarrow> (fst m, Inl e)
      | Inr x \<Rightarrow> after (fst m) (f x))"

text \<open>\<^verbatim>\<open>try { m } catch (e) { h e }\<close>.\<close>

definition try_catch :: "'a run \<Rightarrow> (js_error \<Rightarrow> 'a run) \<Rightarrow> 'a run" where
  "try_catch m h =
     (case snd m of
        Inl e \<Rightarrow> after (fst m) (h e)
      | Inr x \<Rightarrow> m)"

subsection \<open>Path containment\<close>

text \<open>
  Modelled from the spec: \<^verbatim>\<open>resolveSafeChildPath\<close> of \<^verbatim>\<open>@backstage/backend-common\<close>
  is not among the sources. The specification says that the workspace root is
  safely joined with the caller-supplied relative \<^verbatim>\<open>targetPath\<close>, and that this
  join must reject any path that escapes the workspace root, failing with an input
  error rather than silently clamping. Paths are POSIX paths: they are cut at
  \<^verbatim>\<open>/\<close>, empty and \<^verbatim>\<open>.\<close> segments are dropped, and \<^verbatim>\<open>..\<close> removes the segment
  before it.
\<close>

fun splitPath :: "string \<Rightarrow> string list" where
  "splitPath [] = [[]]"
| "splitPath (c # cs) =
     (if c = CHR ''/'' then [] # splitPath cs
      else (case splitPath cs of
              [] \<Rightarrow> [[c]]
            | s # ss \<Rightarrow> (c # s) # ss))"

text \<open>
  Modelled from the spec: one step of the safe join, which is not among the sources;
  the segments resolved so far, and the next segment.
\<close>

definition applySegment :: "string list \<Rightarrow> string \<Rightarrow> string list" where
  "applySegment stack seg =
     (if seg = [] \<or> seg = ''.'' then stack
      else if seg = ''..'' then butlast stack
      else stack @ [seg])"

text \<open>
  Modelled from the spec: the join of the workspace root with the caller-supplied
  path, as resolved segments. A path that starts at \<^verbatim>\<open>/\<close> does not depend on
  the root.
\<close>

definition resolvePath :: "string \<Rightarrow> string \<Rightarrow> string list" where
  "resolvePath base p =
     foldl applySegment
       (if take 1 p = ''/'' then [] else foldl applySegment [] (splitPath base))
       (splitPath p)"

text \<open>
  Modelled from the spec: a path escapes the workspace root when the join does not
  lie at or below the root.
\<close>

definition escapes :: "string \<Rightarrow> string \<Rightarrow> bool" where
  "escapes base p = (\<not> prefix (resolvePath base []) (resolvePath base p))"

text \<open>
  Modelled from the spec: \<^verbatim>\<open>resolveSafeChildPath\<close>, which rejects an escaping
  path with an input error and otherwise returns the joined path.
\<close>

definition resolveSafeChildPath :: "string \<Rightarrow> string \<Rightarrow> js_error + string" where
  "resolveSafeChildPath base p =
     (if escapes base p
      then Inl (InputError ''Target path escapes the workspace root'')
      else Inr (CHR ''/'' # js_join ''/'' (resolvePath base p)))"

subsection \<open>The steps the two versions share\<close>

definition deprecationWarning :: string where
  "deprecationWarning =
     ''Property \"projectid\" is deprecated and no longer to needed to create a MR''"

text \<open>
  The project path (lines 119 to 126 of \<^verbatim>\<open>part_000\<close>, lines 92 to 99 of
  \<^verbatim>\<open>gitlabIssue.ts\<close>): \<^verbatim>\<open>owner/repo\<close> at first, replaced by \<^verbatim>\<open>ctx.input.projectid\<close>
  when that is truthy, after two warnings.
\<close>

definition determineProjectPath :: "action_input \<Rightarrow> repo_locator \<Rightarrow> string run" where
  "determineProjectPath inp loc =
     (case projectid inp of
        None \<Rightarrow> ret (owner loc @ ''/'' @ repo loc)
      | Some p \<Rightarrow>
          if p \<noteq> [] then
            bind (emit (LoggerWarn deprecationWarning)) (\<lambda>_.
            bind (emit (ConsoleWarn deprecationWarning)) (\<lambda>_.
            ret p))
          else ret (owner loc @ ''/'' @ repo loc))"

subsection \<open>The handler of \<^verbatim>\<open>src/unnamed/part_000\<close>\<close>

text \<open>The property names of the declared output schema (lines 99 to 113).\<close>

definition output_schema_part_000 :: "string list" where
  "output_schema_part_000 = [''projectid'', ''projectPath'', ''mergeRequestURL'']"

text \<open>The options of \<^verbatim>\<open>new Gitlab\<close> (lines 140 to 146).\<close>

definition gitlab_part_000 :: "action_input \<Rightarrow> integration_config \<Rightarrow> gitlab_options" where
  "gitlab_part_000 inp integrationConfig =
     (let tok = nullish (token inp) (config_token integrationConfig);
          tokenType = (if truthy (token inp) then ''oauthToken'' else ''token'')
      in \<lparr>api_host = baseUrl integrationConfig,
          api_tokenType = tokenType, api_token = tok\<rparr>)"

definition handler_part_000 :: "environment \<Rightarrow> action_context \<Rightarrow> unit run" where
  "handler_part_000 env ctx =
     bind (answer (parseRepoUrl env (repoUrl (input ctx)))) (\<lambda>loc.
     bind (determineProjectPath (input ctx) loc) (\<lambda>projectPath.
     bind (case byHost env (host loc) of
             None \<Rightarrow> throw (InputError
               (''No matching integration configuration for host '' @ host loc @
                '', please check your integrations config''))
           | Some c \<Rightarrow> ret c) (\<lambda>integrationConfig.
     bind (if \<not> truthy (config_token integrationConfig) \<and> \<not> truthy (token (input ctx))
           then throw (InputError (''No token available for host '' @ host loc))
           else ret ()) (\<lambda>_.
     let api = gitlab_part_000 (input ctx) integrationConfig in
     bind (emit (NewGitlab api)) (\<lambda>_.
     bind (answer (resolveSafeChildPath (workspacePath ctx) (targetPath (input ctx))))
       (\<lambda>targetPath'.
     bind (call (SerializeDirectoryContents targetPath')
             (serializeDirectoryContents env targetPath')) (\<lambda>fileContents.
     let desc = js_join '','' (map content fileContents) in
     bind (call (ProjectsShow api projectPath) (Projects_show env api projectPath))
       (\<lambda>projects.
     bind (emit (ConsoleLog ''got project'')) (\<lambda>_.
     let issue = \<lparr>issue_title = title (input ctx), issue_description = Some desc,
                  issue_labels = [''onboarding'']\<rparr>
     in
     bind (emit (ConsoleLog ''Trying to create issue '')) (\<lambda>_.
     try_catch
       (bind (call (IssuesCreate api (project_id projects) issue)
                (Issues_create env api (project_id projects) issue)) (\<lambda>issueRes.
        bind (emit (ConsoleLog ''Issue Created'')) (\<lambda>_.
        bind (emit (Output ''projectid'' projectPath)) (\<lambda>_.
        bind (emit (Output ''projectPath'' projectPath)) (\<lambda>_.
        emit (Output ''mergeRequestUrl'' (web_url issueRes)))))))
       (\<lambda>e. throw (InputError
          (''Creating the issue to '' @ projectPath @ '' failed '' @ error_toString e)))
     ))))))))))"

subsection \<open>The handler of \<^verbatim>\<open>publish/gitlabIssue.ts\<close>\<close>

text \<open>The property names of the declared output schema (lines 70 to 87).\<close>

definition output_schema_gitlabIssue :: "string list" where
  "output_schema_gitlabIssue = [''projectid'', ''projectPath'', ''issueUrl'']"

text \<open>The options of \<^verbatim>\<open>new Gitlab\<close> (lines 113 to 119).\<close>

definition gitlab_gitlabIssue :: "integration_config \<Rightarrow> gitlab_options" where
  "gitlab_gitlabIssue integrationConfig =
     (let tok = config_token integrationConfig;
          tokenType = ''token''
      in \<lparr>api_host = baseUrl integrationConfig,
          api_tokenType = tokenType, api_token = tok\<rparr>)"

definition handler_gitlabIssue :: "environment \<Rightarrow> action_context \<Rightarrow> unit run" where
  "handler_gitlabIssue env ctx =
     bind (answer (parseRepoUrl env (repoUrl (input ctx)))) (\<lambda>loc.
     bind (determineProjectPath (input ctx) loc) (\<lambda>projectPath.
     bind (case byHost env (host loc) of
             None \<Rightarrow> throw (InputError
               (''No matching integration configuration for host '' @ host loc @
                '', please check your integrations config''))
           | Some c \<Rightarrow> ret c) (\<lambda>integrationConfig.
     bind (if \<not> truthy (config_token integrationConfig) \<and> \<not> truthy (token (input ctx))
           then throw (InputError (''No token available for host '' @ host loc))
           else ret ()) (\<lambda>_.
     let api = gitlab_gitlabIssue integrationConfig in
     bind (emit (NewGitlab api)) (\<lambda>_.
     bind (answer (resolveSafeChildPath (workspacePath ctx) (targetPath (input ctx))))
       (\<lambda>targetPath'.
     bind (call (SerializeDirectoryContents targetPath')
             (serializeDirectoryContents env targetPath')) (\<lambda>fileContents.
     bind (emit (ConsoleLog ''Getting file contents for '')) (\<lambda>_.
     let desc = map_option content
                  (find (\<lambda>file. path file = targetPath (input ctx)) fileContents) in
     bind (call (ProjectsShow api projectPath) (Projects_show env api projectPath))
       (\<lambda>projects.
     let issue = \<lparr>issue_title = title (input ctx), issue_description = desc,
                  issue_labels = [''onboarding'']\<rparr>
     in
     bind (emit (ConsoleLog ''Trying to create issue '')) (\<lambda>_.
     try_catch
       (bind (call (IssuesCreate api (project_id projects) issue)
                (Issues_create env api (project_id projects) issue)) (\<lambda>issueRes.
        bind (emit (ConsoleLog ''Issue Created'')) (\<lambda>_.
        bind (emit (Output ''projectid'' projectPath)) (\<lambda>_.
        bind (emit (Output ''projectPath'' projectPath)) (\<lambda>_.
        emit (Output ''issueUrl'' (web_url issueRes)))))))
       (\<lambda>e. throw (InputError
          (''Creating the issue to '' @ projectPath @ '' failed '' @ error_toString e)))
     ))))))))))"

subsection \<open>Reading a run\<close>

text \<open>
  Projections of the effects of a run: the outputs written to \<^verbatim>\<open>ctx.output\<close>
  (key and value), the clients constructed, the project paths looked up and the
  issues submitted, each in order; and the calls that leave the process, which
  are reading the workspace directory and the two requests to the GitLab API.
\<close>

fun outputs_of :: "event list \<Rightarrow> (string \<times> string) list" where
  "outputs_of [] = []"
| "outputs_of (Output k v # evs) = (k, v) # outputs_of evs"
| "outputs_of (_ # evs) = outputs_of evs"

fun clients_of :: "event list \<Rightarrow> gitlab_options list" where
  "clients_of [] = []"
| "clients_of (NewGitlab api # evs) = api # clients_of evs"
| "clients_of (_ # evs) = clients_of evs"

fun lookups_of :: "event list \<Rightarrow> string list" where
  "lookups_of [] = []"
| "lookups_of (ProjectsShow api p # evs) = p # lookups_of evs"
| "lookups_of (_ # evs) = lookups_of evs"

fun created_issues :: "event list \<Rightarrow> issue list" where
  "created_issues [] = []"
| "created_issues (IssuesCreate api i iss # evs) = iss # created_issues evs"
| "created_issues (_ # evs) = created_issues evs"

fun is_filesystem :: "event \<Rightarrow> bool" where
  "is_filesystem (SerializeDirectoryContents _) = True"
| "is_filesystem _ = False"

fun is_network :: "event \<Rightarrow> bool" where
  "is_network (ProjectsShow _ _) = True"
| "is_network (IssuesCreate _ _ _) = True"
| "is_network _ = False"

text \<open>
  Every output of a run comes after a call of \<^verbatim>\<open>api.Issues.create\<close> that the
  remote answered; \<open>created\<close> says whether such a call has been seen.
\<close>

fun outputs_follow_creation :: "environment \<Rightarrow> bool \<Rightarrow> event list \<Rightarrow> bool" where
  "outputs_follow_creation env created [] = True"
| "outputs_follow_creation env created (IssuesCreate api i iss # evs) =
     outputs_follow_creation env (created \<or> \<not> isl (Issues_create env api i iss)) evs"
| "outputs_follow_creation env created (Output k v # evs) =
     (created \<and> outputs_follow_creation env created evs)"
| "outputs_follow_creation env created (_ # evs) = outputs_follow_creation env created evs"

subsection \<open>Concrete settings\<close>

text \<open>
  Settings for evaluating the handlers: a registry that knows \<^verbatim>\<open>gitlab.com\<close> with
  a configured token, a workspace with two files, and a remote that answers both
  requests; then variations of it, one collaborator or one input changed at a time.
\<close>

definition sample_files :: "serialized_file list" where
  "sample_files = [\<lparr>path = ''a.md'', content = ''X''\<rparr>, \<lparr>path = ''b.md'', content = ''Y''\<rparr>]"

definition sample_env :: environment where
  "sample_env =
     \<lparr>parseRepoUrl = (\<lambda>u. Inr \<lparr>host = ''gitlab.com'', owner = ''org'', repo = ''repo''\<rparr>),
      byHost = (\<lambda>h. if h = ''gitlab.com''
                     then Some \<lparr>baseUrl = ''https://gitlab.com'', config_token = Some ''cfg''\<rparr>
                     else None),
      serializeDirectoryContents = (\<lambda>p. Inr sample_files),
      Projects_show = (\<lambda>api p. Inr \<lparr>project_id = 7\<rparr>),
      Issues_create = (\<lambda>api i iss. Inr \<lparr>web_url = ''https://gitlab.com/org/repo/-/issues/1''\<rparr>)\<rparr>"

definition sample_ctx :: action_context where
  "sample_ctx =
     \<lparr>input = \<lparr>repoUrl = ''gitlab.com?owner=org&repo=repo'', title = ''Onboarding'',
                targetPath = ''a.md'', token = None, projectid = None\<rparr>,
      workspacePath = ''/tmp/ws''\<rparr>"

definition sample_locator :: repo_locator where
  "sample_locator = \<lparr>host = ''gitlab.com'', owner = ''org'', repo = ''repo''\<rparr>"

definition sample_config :: integration_config where
  "sample_config = \<lparr>baseUrl = ''https://gitlab.com'', config_token = Some ''cfg''\<rparr>"

definition sample_client :: gitlab_options where
  "sample_client =
     \<lparr>api_host = ''https://gitlab.com'', api_tokenType = ''token'', api_token = Some ''cfg''\<rparr>"

definition tokenless_config :: integration_config where
  "tokenless_config = \<lparr>baseUrl = ''https://gitlab.com'', config_token = None\<rparr>"

definition tokenless_env :: environment where
  "tokenless_env = sample_env\<lparr>byHost := (\<lambda>h. Some tokenless_config)\<rparr>"

definition unknown_host_env :: environment where
  "unknown_host_env = sample_env\<lparr>byHost := (\<lambda>h. None)\<rparr>"

definition failing_lookup_env :: environment where
  "failing_lookup_env =
     sample_env\<lparr>Projects_show := (\<lambda>api p. Inl (ThrownError ''Error'' ''404 Project Not Found''))\<rparr>"

definition failing_create_env :: environment where
  "failing_create_env =
     sample_env\<lparr>Issues_create := (\<lambda>api i iss. Inl (ThrownError ''Error'' ''403 Forbidden''))\<rparr>"

definition explicit_token_ctx :: action_context where
  "explicit_token_ctx = sample_ctx\<lparr>input := (input sample_ctx)\<lparr>token := Some ''tok''\<rparr>\<rparr>"

definition deprecated_ctx :: action_context where
  "deprecated_ctx = sample_ctx\<lparr>input := (input sample_ctx)\<lparr>projectid := Some ''group/legacy''\<rparr>\<rparr>"

definition empty_projectid_ctx :: action_context where
  "empty_projectid_ctx = sample_ctx\<lparr>input := (input sample_ctx)\<lparr>projectid := Some []\<rparr>\<rparr>"

definition escaping_ctx :: action_context where
  "escaping_ctx = sample_ctx\<lparr>input := (input sample_ctx)\<lparr>targetPath := ''../../etc''\<rparr>\<rparr>"

section \<open>Laws of runs\<close>

lemma after_Pair [simp]: "after tr (tr', r) = (tr @ tr', r)"
  by (simp add: after_def)

lemma fst_after [simp]: "fst (after tr m) = tr @ fst m"
  by (simp add: after_def)

lemma snd_after [simp]: "snd (after tr m) = snd m"
  by (simp add: after_def)

lemma bind_Pair:
  "bind (tr, r) f = (case r of Inl e \<Rightarrow> (tr, Inl e) | Inr x \<Rightarrow> after tr (f x))"
  by (simp add: bind_def split: sum.split)

lemma bind_Inr [simp]: "bind (tr, Inr x) f = after tr (f x)"
  by (simp add: bind_def)

lemma bind_Inl [simp]: "bind (tr, Inl e) f = (tr, Inl e)"
  by (simp add: bind_def)

lemma bind_after [simp]: "bind (after tr m) f = after tr (bind m f)"
  by (simp add: bind_def after_def split: sum.split)

lemma try_catch_Pair:
  "try_catch (tr, r) h = (case r of Inl e \<Rightarrow> after tr (h e) | Inr x \<Rightarrow> (tr, Inr x))"
  by (simp add: try_catch_def split: sum.split)

lemma try_catch_Inr [simp]: "try_catch (tr, Inr x) h = (tr, Inr x)"
  by (simp add: try_catch_def)

lemma try_catch_Inl [simp]: "try_catch (tr, Inl e) h = after tr (h e)"
  by (simp add: try_catch_def)

lemma try_catch_after [simp]: "try_catch (after tr m) h = after tr (try_catch m h)"
  by (simp add: try_catch_def after_def split: sum.split)

lemmas run_simps = ret_def throw_def emit_def call_def answer_def Let_def

lemmas run_splits = bind_Pair try_catch_Pair

lemma outputs_of_append [simp]: "outputs_of (xs @ ys) = outputs_of xs @ outputs_of ys"
  by (induction xs rule: outputs_of.induct) simp_all

lemma clients_of_append [simp]: "clients_of (xs @ ys) = clients_of xs @ clients_of ys"
  by (induction xs rule: clients_of.induct) simp_all

lemma lookups_of_append [simp]: "lookups_of (xs @ ys) = lookups_of xs @ lookups_of ys"
  by (induction xs rule: lookups_of.induct) simp_all

lemma created_issues_append [simp]:
  "created_issues (xs @ ys) = created_issues xs @ created_issues ys"
  by (induction xs rule: created_issues.induct) simp_all

text \<open>The project path step never fails; it warns exactly when it overrides.\<close>

lemma determineProjectPath_eq:
  "determineProjectPath inp loc =
     (case projectid inp of
        None \<Rightarrow> ([], Inr (owner loc @ ''/'' @ repo loc))
      | Some p \<Rightarrow>
          if p \<noteq> []
          then ([LoggerWarn deprecationWarning, ConsoleWarn deprecationWarning], Inr p)
          else ([], Inr (owner loc @ ''/'' @ repo loc)))"
  by (simp add: determineProjectPath_def run_simps split: option.split)

lemmas sample_defs = sample_env_def sample_ctx_def sample_files_def

lemmas path_defs = resolveSafeChildPath_def escapes_def resolvePath_def applySegment_def

lemmas handler_defs = handler_part_000_def handler_gitlabIssue_def

lemmas eval_simps =
  handler_defs run_simps determineProjectPath_eq sample_defs path_defs
  gitlab_part_000_def gitlab_gitlabIssue_def

section \<open>Credentials\<close>

text \<open>
  C1, as the claim states it: an explicit token makes the credential an
  \<^verbatim>\<open>oauthToken\<close> with the explicit token as its value, in both versions. The
  handler of \<^verbatim>\<open>gitlabIssue.ts\<close> does otherwise: with the explicit token \<^verbatim>\<open>tok\<close>
  and the configured token \<^verbatim>\<open>cfg\<close> it constructs the client with the kind
  \<^verbatim>\<open>token\<close> and the value \<^verbatim>\<open>cfg\<close>.
\<close>

theorem gitlabIssue_ignores_explicit_token:
  "token (input explicit_token_ctx) = Some ''tok'' \<and>
   clients_of (fst (handler_gitlabIssue sample_env explicit_token_ctx)) =
     [\<lparr>api_host = ''https://gitlab.com'', api_tokenType = ''token'',
       api_token = Some ''cfg''\<rparr>]"
  by (simp add: eval_simps explicit_token_ctx_def)

text \<open>
  C1, amended. Let the locator be parsed and the registry know its host. When
  neither the configured nor the explicit token is present (undefined or empty),
  both handlers fail with the input error \<^verbatim>\<open>No token available for host\<close> naming the
  host, and construct no client. In \<^verbatim>\<open>part_000\<close> a non-empty explicit token is
  used as an \<^verbatim>\<open>oauthToken\<close>, and without an explicit token a non-empty configured
  token is used as a \<^verbatim>\<open>token\<close>. In \<^verbatim>\<open>gitlabIssue.ts\<close> a non-empty configured token
  is used as a \<^verbatim>\<open>token\<close> whatever the explicit token is.
\<close>

theorem credential_resolution:
  assumes "parseRepoUrl env (repoUrl (input ctx)) = Inr loc"
    and "byHost env (host loc) = Some cfg"
  shows
    "(\<not> truthy (config_token cfg) \<and> \<not> truthy (token (input ctx)) \<longrightarrow>
        snd (handler_part_000 env ctx) =
          Inl (InputError (''No token available for host '' @ host loc)) \<and>
        clients_of (fst (handler_part_000 env ctx)) = [] \<and>
        snd (handler_gitlabIssue env ctx) =
          Inl (InputError (''No token available for host '' @ host loc)) \<and>
        clients_of (fst (handler_gitlabIssue env ctx)) = []) \<and>
     (\<forall>t. token (input ctx) = Some t \<and> t \<noteq> [] \<longrightarrow>
        clients_of (fst (handler_part_000 env ctx)) =
          [\<lparr>api_host = baseUrl cfg, api_tokenType = ''oauthToken'', api_token = Some t\<rparr>]) \<and>
     (\<forall>c. token (input ctx) = None \<and> config_token cfg = Some c \<and> c \<noteq> [] \<longrightarrow>
        clients_of (fst (handler_part_000 env ctx)) =
          [\<lparr>api_host = baseUrl cfg, api_tokenType = ''token'', api_token = Some c\<rparr>]) \<and>
     (\<forall>c. config_token cfg = Some c \<and> c \<noteq> [] \<longrightarrow>
        clients_of (fst (handler_gitlabIssue env ctx)) =
          [\<lparr>api_host = baseUrl cfg, api_tokenType = ''token'', api_token = Some c\<rparr>])"
proof (intro conjI allI impI)
  assume "\<not> truthy (config_token cfg) \<and> \<not> truthy (token (input ctx))"
  with assms show
    "snd (handler_part_000 env ctx) =
       Inl (InputError (''No token available for host '' @ host loc))"
    "clients_of (fst (handler_part_000 env ctx)) = []"
    "snd (handler_gitlabIssue env ctx) =
       Inl (InputError (''No token available for host '' @ host loc))"
    "clients_of (fst (handler_gitlabIssue env ctx)) = []"
    by (simp_all add: handler_defs run_simps determineProjectPath_eq
          split: option.split)
next
  fix t
  assume "token (input ctx) = Some t \<and> t \<noteq> []"
  with assms show
    "clients_of (fst (handler_part_000 env ctx)) =
       [\<lparr>api_host = baseUrl cfg, api_tokenType = ''oauthToken'', api_token = Some t\<rparr>]"
    by (simp add: handler_defs run_simps run_splits determineProjectPath_eq
          gitlab_part_000_def split: option.split sum.split)
next
  fix c
  assume "token (input ctx) = None \<and> config_token cfg = Some c \<and> c \<noteq> []"
  with assms show
    "clients_of (fst (handler_part_000 env ctx)) =
       [\<lparr>api_host = baseUrl cfg, api_tokenType = ''token'', api_token = Some c\<rparr>]"
    by (simp add: handler_defs run_simps run_splits determineProjectPath_eq
          gitlab_part_000_def split: option.split sum.split)
next
  fix c
  assume "config_token cfg = Some c \<and> c \<noteq> []"
  with assms show
    "clients_of (fst (handler_gitlabIssue env ctx)) =
       [\<lparr>api_host = baseUrl cfg, api_tokenType = ''token'', api_token = Some c\<rparr>]"
    by (simp add: handler_defs run_simps run_splits determineProjectPath_eq
          gitlab_gitlabIssue_def split: option.split sum.split)
qed

theorem credential_resolution_witness:
  "snd (handler_part_000 tokenless_env sample_ctx) =
     Inl (InputError ''No token available for host gitlab.com'') \<and>
   snd (handler_gitlabIssue tokenless_env sample_ctx) =
     Inl (InputError ''No token available for host gitlab.com'') \<and>
   clients_of (fst (handler_part_000 sample_env explicit_token_ctx)) =
     [\<lparr>api_host = ''https://gitlab.com'', api_tokenType = ''oauthToken'',
       api_token = Some ''tok''\<rparr>] \<and>
   clients_of (fst (handler_part_000 sample_env sample_ctx)) =
     [\<lparr>api_host = ''https://gitlab.com'', api_tokenType = ''token'',
       api_token = Some ''cfg''\<rparr>] \<and>
   clients_of (fst (handler_gitlabIssue sample_env explicit_token_ctx)) =
     [\<lparr>api_host = ''https://gitlab.com'', api_tokenType = ''token'',
       api_token = Some ''cfg''\<rparr>]"
proof -
  have none: "parseRepoUrl tokenless_env (repoUrl (input sample_ctx)) = Inr sample_locator"
    "byHost tokenless_env (host sample_locator) = Some tokenless_config"
    by (simp_all add: sample_defs tokenless_env_def tokenless_config_def sample_locator_def sample_config_def explicit_token_ctx_def)
  have some: "parseRepoUrl sample_env (repoUrl (input sample_ctx)) = Inr sample_locator"
    "parseRepoUrl sample_env (repoUrl (input explicit_token_ctx)) = Inr sample_locator"
    "byHost sample_env (host sample_locator) = Some sample_config"
    by (simp_all add: sample_defs tokenless_env_def tokenless_config_def sample_locator_def sample_config_def explicit_token_ctx_def)
  show ?thesis
    using credential_resolution [OF none]
      credential_resolution [OF some(1) some(3)]
      credential_resolution [OF some(2) some(3)]
    by (simp add: sample_defs tokenless_env_def tokenless_config_def sample_locator_def sample_config_def explicit_token_ctx_def)
qed

section \<open>The description of the issue\<close>

text \<open>
  C2, as the claim states it: the description is the concatenation of the contents.
  For the two files with the contents \<^verbatim>\<open>X\<close> and \<^verbatim>\<open>Y\<close> the handler of \<^verbatim>\<open>part_000\<close>
  submits the description \<^verbatim>\<open>X,Y\<close>, whereas the concatenation is \<^verbatim>\<open>XY\<close>: the
  call \<^verbatim>\<open>join()\<close> has no argument, and the separator is then a comma.
\<close>

theorem description_part_000_has_commas:
  "map issue_description (created_issues (fst (handler_part_000 sample_env sample_ctx))) =
     [Some ''X,Y''] \<and>
   concat (map content sample_files) = ''XY''"
  by (simp add: eval_simps)

text \<open>
  C2, amended: whenever the handler of \<^verbatim>\<open>part_000\<close> submits an issue, its
  description is the contents of all serialized files, in the order of the
  serializer, joined with a comma between two neighbours; it is their plain
  concatenation when there is at most one file.
\<close>

theorem description_part_000_joined:
  assumes "resolveSafeChildPath (workspacePath ctx) (targetPath (input ctx)) = Inr dir"
    and "serializeDirectoryContents env dir = Inr files"
    and "iss \<in> set (created_issues (fst (handler_part_000 env ctx)))"
  shows "issue_description iss = Some (js_join '','' (map content files)) \<and>
         (length files \<le> 1 \<longrightarrow> issue_description iss = Some (concat (map content files)))"
proof -
  have d: "issue_description iss = Some (js_join '','' (map content files))"
    using assms
    by (auto simp: handler_defs run_simps run_splits determineProjectPath_eq
          split: sum.splits option.splits if_splits)
  have "length files \<le> 1 \<Longrightarrow> js_join '','' (map content files) = concat (map content files)"
    by (cases files) auto
  with d show ?thesis by simp
qed

theorem description_part_000_joined_witness:
  "resolveSafeChildPath (workspacePath sample_ctx) (targetPath (input sample_ctx)) =
     Inr ''/tmp/ws/a.md'' \<and>
   serializeDirectoryContents sample_env ''/tmp/ws/a.md'' = Inr sample_files \<and>
   created_issues (fst (handler_part_000 sample_env sample_ctx)) =
     [\<lparr>issue_title = ''Onboarding'', issue_description = Some ''X,Y'',
       issue_labels = [''onboarding'']\<rparr>] \<and>
   issue_description \<lparr>issue_title = ''Onboarding'', issue_description = Some ''X,Y'',
       issue_labels = [''onboarding'']\<rparr> = Some (js_join '','' (map content sample_files))"
proof -
  have a: "resolveSafeChildPath (workspacePath sample_ctx) (targetPath (input sample_ctx)) =
     Inr ''/tmp/ws/a.md''"
    by (simp add: sample_defs path_defs)
  have b: "serializeDirectoryContents sample_env ''/tmp/ws/a.md'' = Inr sample_files"
    by (simp add: sample_defs)
  have c: "created_issues (fst (handler_part_000 sample_env sample_ctx)) =
     [\<lparr>issue_title = ''Onboarding'', issue_description = Some ''X,Y'',
       issue_labels = [''onboarding'']\<rparr>]"
    by (simp add: eval_simps)
  have "\<lparr>issue_title = ''Onboarding'', issue_description = Some ''X,Y'',
       issue_labels = [''onboarding'']\<rparr> \<in> set (created_issues (fst (handler_part_000 sample_env sample_ctx)))"
    by (simp add: c)
  from description_part_000_joined [OF a b this] a b c show ?thesis
    by simp
qed

text \<open>
  C3: whenever the handler of \<^verbatim>\<open>gitlabIssue.ts\<close> submits an issue, its description
  is decided by the serialized files and the \<^verbatim>\<open>targetPath\<close> input alone. When no
  file has exactly that path, the description is undefined. Otherwise it is the
  content of the file with exactly that path, the first one in the order of the
  serializer; where the paths of the files are pairwise different, this is the
  content of every file with that path.
\<close>

theorem description_gitlabIssue_single_file:
  assumes "resolveSafeChildPath (workspacePath ctx) (targetPath (input ctx)) = Inr dir"
    and "serializeDirectoryContents env dir = Inr files"
    and "iss \<in> set (created_issues (fst (handler_gitlabIssue env ctx)))"
  shows
    "((\<forall>f \<in> set files. path f \<noteq> targetPath (input ctx)) \<longrightarrow>
        issue_description iss = None) \<and>
     ((\<exists>f \<in> set files. path f = targetPath (input ctx)) \<longrightarrow>
        (\<exists>i < length files.
           path (files ! i) = targetPath (input ctx) \<and>
           (\<forall>j < i. path (files ! j) \<noteq> targetPath (input ctx)) \<and>
           issue_description iss = Some (content (files ! i)))) \<and>
     (\<forall>f \<in> set files. path f = targetPath (input ctx) \<and> distinct (map path files) \<longrightarrow>
        issue_description iss = Some (content f))"
proof -
  let ?tp = "targetPath (input ctx)"
  let ?found = "find (\<lambda>file. path file = ?tp) files"
  have d: "issue_description iss = map_option content ?found"
    using assms
    by (auto simp: handler_defs run_simps run_splits determineProjectPath_eq
          split: sum.splits option.splits if_splits)
  have none: "(\<forall>f \<in> set files. path f \<noteq> ?tp) \<longrightarrow> issue_description iss = None"
    by (simp add: d find_None_iff)
  have first: "(\<exists>f \<in> set files. path f = ?tp) \<longrightarrow>
        (\<exists>i < length files. path (files ! i) = ?tp \<and>
           (\<forall>j < i. path (files ! j) \<noteq> ?tp) \<and>
           issue_description iss = Some (content (files ! i)))"
  proof
    assume "\<exists>f \<in> set files. path f = ?tp"
    then have "?found \<noteq> None" by (auto simp: find_None_iff)
    then obtain g where g: "?found = Some g" by blast
    then obtain i where "i < length files" "path (files ! i) = ?tp" "g = files ! i"
      "\<forall>j < i. path (files ! j) \<noteq> ?tp"
      unfolding find_Some_iff by blast
    with g d show "\<exists>i < length files. path (files ! i) = ?tp \<and>
           (\<forall>j < i. path (files ! j) \<noteq> ?tp) \<and>
           issue_description iss = Some (content (files ! i))"
      by auto
  qed
  have unique: "\<forall>f \<in> set files. path f = ?tp \<and> distinct (map path files) \<longrightarrow>
        issue_description iss = Some (content f)"
  proof (intro ballI impI)
    fix f
    assume f: "f \<in> set files" and "path f = ?tp \<and> distinct (map path files)"
    then have p: "path f = ?tp" and dist: "distinct (map path files)" by simp_all
    from f p first obtain i where i: "i < length files" "path (files ! i) = ?tp"
      "issue_description iss = Some (content (files ! i))" by blast
    from f obtain k where k: "k < length files" "files ! k = f"
      by (auto simp: in_set_conv_nth)
    have "map path files ! i = map path files ! k"
      using i k p by simp
    with dist i(1) k(1) have "i = k"
      by (simp add: nth_eq_iff_index_eq del: nth_map)
    with i k show "issue_description iss = Some (content f)" by simp
  qed
  from none first unique show ?thesis by blast
qed

theorem description_gitlabIssue_single_file_witness:
  "resolveSafeChildPath (workspacePath sample_ctx) (targetPath (input sample_ctx)) =
     Inr ''/tmp/ws/a.md'' \<and>
   serializeDirectoryContents sample_env ''/tmp/ws/a.md'' = Inr sample_files \<and>
   created_issues (fst (handler_gitlabIssue sample_env sample_ctx)) =
     [\<lparr>issue_title = ''Onboarding'', issue_description = Some ''X'',
       issue_labels = [''onboarding'']\<rparr>] \<and>
   path (sample_files ! 0) = targetPath (input sample_ctx) \<and>
   distinct (map path sample_files) \<and>
   content (sample_files ! 0) = ''X''"
proof -
  let ?iss = "\<lparr>issue_title = ''Onboarding'', issue_description = Some ''X'',
       issue_labels = [''onboarding'']\<rparr>"
  have a: "resolveSafeChildPath (workspacePath sample_ctx) (targetPath (input sample_ctx)) =
     Inr ''/tmp/ws/a.md''"
    by (simp add: sample_defs path_defs)
  have b: "serializeDirectoryContents sample_env ''/tmp/ws/a.md'' = Inr sample_files"
    by (simp add: sample_defs)
  have c: "created_issues (fst (handler_gitlabIssue sample_env sample_ctx)) = [?iss]"
    by (simp add: eval_simps)
  have "?iss \<in> set (created_issues (fst (handler_gitlabIssue sample_env sample_ctx)))"
    by (simp add: c)
  from description_gitlabIssue_single_file [OF a b this] a b c show ?thesis
    by (simp add: sample_defs)
qed

section \<open>The project path\<close>

text \<open>
  C4, as the claim states it: a \<^verbatim>\<open>projectid\<close> that is present takes precedence and
  is announced by a warning. With the \<^verbatim>\<open>projectid\<close> input present and equal to the
  empty string, the handler looks up \<^verbatim>\<open>org/repo\<close>, reports \<^verbatim>\<open>org/repo\<close> under both
  keys, and warns nobody: the test \<^verbatim>\<open>if (ctx.input.projectid)\<close> is one of
  truthiness.
\<close>

theorem empty_projectid_does_not_override:
  "projectid (input empty_projectid_ctx) = Some [] \<and>
   lookups_of (fst (handler_part_000 sample_env empty_projectid_ctx)) = [''org/repo''] \<and>
   map_of (outputs_of (fst (handler_part_000 sample_env empty_projectid_ctx))) ''projectid'' =
     Some ''org/repo'' \<and>
   map_of (outputs_of (fst (handler_part_000 sample_env empty_projectid_ctx))) ''projectPath'' =
     Some ''org/repo'' \<and>
   LoggerWarn deprecationWarning \<notin> set (fst (handler_part_000 sample_env empty_projectid_ctx))"
  by (simp add: eval_simps empty_projectid_ctx_def)

text \<open>
  C4, amended. Let the locator be parsed, and let \<open>h\<close> be either handler. The
  project path is the \<^verbatim>\<open>projectid\<close> input when that is present and not empty, and
  \<^verbatim>\<open>owner/repo\<close> of the locator otherwise. The logger receives the deprecation
  warning exactly in the first case. Every project lookup uses the project path,
  and a run that succeeds has looked it up once and reports it under both keys
  \<^verbatim>\<open>projectid\<close> and \<^verbatim>\<open>projectPath\<close>.
\<close>

theorem project_path_determination:
  assumes "h = handler_part_000 \<or> h = handler_gitlabIssue"
    and "parseRepoUrl env (repoUrl (input ctx)) = Inr loc"
    and "pp = (case projectid (input ctx) of
                 None \<Rightarrow> owner loc @ ''/'' @ repo loc
               | Some p \<Rightarrow> if p \<noteq> [] then p else owner loc @ ''/'' @ repo loc)"
  shows
    "(LoggerWarn deprecationWarning \<in> set (fst (h env ctx)) \<longleftrightarrow>
        truthy (projectid (input ctx))) \<and>
     (\<forall>q \<in> set (lookups_of (fst (h env ctx))). q = pp) \<and>
     (snd (h env ctx) = Inr () \<longrightarrow>
        lookups_of (fst (h env ctx)) = [pp] \<and>
        map_of (outputs_of (fst (h env ctx))) ''projectid'' = Some pp \<and>
        map_of (outputs_of (fst (h env ctx))) ''projectPath'' = Some pp)"
  using assms
  by (elim disjE)
     (auto simp: handler_defs run_simps run_splits determineProjectPath_eq
        split: sum.splits option.splits if_splits)

theorem project_path_determination_witness:
  "lookups_of (fst (handler_part_000 sample_env deprecated_ctx)) = [''group/legacy''] \<and>
   map_of (outputs_of (fst (handler_part_000 sample_env deprecated_ctx))) ''projectid'' =
     Some ''group/legacy'' \<and>
   map_of (outputs_of (fst (handler_part_000 sample_env deprecated_ctx))) ''projectPath'' =
     Some ''group/legacy'' \<and>
   LoggerWarn deprecationWarning \<in> set (fst (handler_part_000 sample_env deprecated_ctx)) \<and>
   lookups_of (fst (handler_gitlabIssue sample_env sample_ctx)) = [''org/repo''] \<and>
   map_of (outputs_of (fst (handler_gitlabIssue sample_env sample_ctx))) ''projectid'' =
     Some ''org/repo'' \<and>
   map_of (outputs_of (fst (handler_gitlabIssue sample_env sample_ctx))) ''projectPath'' =
     Some ''org/repo'' \<and>
   LoggerWarn deprecationWarning \<notin> set (fst (handler_gitlabIssue sample_env sample_ctx))"
proof -
  have a: "parseRepoUrl sample_env (repoUrl (input deprecated_ctx)) = Inr sample_locator"
    "''group/legacy'' = (case projectid (input deprecated_ctx) of
         None \<Rightarrow> owner sample_locator @ ''/'' @ repo sample_locator
       | Some p \<Rightarrow> if p \<noteq> [] then p else owner sample_locator @ ''/'' @ repo sample_locator)"
    "snd (handler_part_000 sample_env deprecated_ctx) = Inr ()"
    "truthy (projectid (input deprecated_ctx))"
    by (simp_all add: eval_simps deprecated_ctx_def sample_locator_def)
  have b: "parseRepoUrl sample_env (repoUrl (input sample_ctx)) = Inr sample_locator"
    "''org/repo'' = (case projectid (input sample_ctx) of
         None \<Rightarrow> owner sample_locator @ ''/'' @ repo sample_locator
       | Some p \<Rightarrow> if p \<noteq> [] then p else owner sample_locator @ ''/'' @ repo sample_locator)"
    "snd (handler_gitlabIssue sample_env sample_ctx) = Inr ()"
    "\<not> truthy (projectid (input sample_ctx))"
    by (simp_all add: eval_simps deprecated_ctx_def sample_locator_def)
  from project_path_determination [OF disjI1 [OF refl] a(1) a(2)]
    project_path_determination [OF disjI2 [OF refl] b(1) b(2)] a(3,4) b(3,4)
  show ?thesis by blast
qed

section \<open>Failures before the remote is contacted\<close>

text \<open>
  C5: let the locator be parsed and the registry return no configuration for its
  host. Then either handler fails with the input error \<^verbatim>\<open>No matching integration
  configuration for host\<close>, which names the host, and up to that point it has
  called neither the remote API nor the serializer of the workspace directory; it
  has constructed no client and written no output either.
\<close>

theorem missing_integration_aborts:
  assumes "h = handler_part_000 \<or> h = handler_gitlabIssue"
    and "parseRepoUrl env (repoUrl (input ctx)) = Inr loc"
    and "byHost env (host loc) = None"
  shows
    "snd (h env ctx) =
       Inl (InputError (''No matching integration configuration for host '' @ host loc @
                        '', please check your integrations config'')) \<and>
     (\<forall>ev \<in> set (fst (h env ctx)). \<not> is_network ev \<and> \<not> is_filesystem ev) \<and>
     clients_of (fst (h env ctx)) = [] \<and>
     outputs_of (fst (h env ctx)) = []"
  using assms
  by (elim disjE)
     (auto simp: handler_defs run_simps determineProjectPath_eq split: option.splits)

theorem missing_integration_aborts_witness:
  "handler_part_000 unknown_host_env sample_ctx =
     ([], Inl (InputError
        ''No matching integration configuration for host gitlab.com, please check your integrations config'')) \<and>
   handler_gitlabIssue unknown_host_env deprecated_ctx =
     ([LoggerWarn deprecationWarning, ConsoleWarn deprecationWarning],
      Inl (InputError
        ''No matching integration configuration for host gitlab.com, please check your integrations config''))"
proof -
  have a: "parseRepoUrl unknown_host_env (repoUrl (input sample_ctx)) = Inr sample_locator"
    "parseRepoUrl unknown_host_env (repoUrl (input deprecated_ctx)) = Inr sample_locator"
    "byHost unknown_host_env (host sample_locator) = None"
    by (simp_all add: sample_defs unknown_host_env_def deprecated_ctx_def sample_locator_def)
  have b: "fst (handler_part_000 unknown_host_env sample_ctx) = []"
    "fst (handler_gitlabIssue unknown_host_env deprecated_ctx) =
       [LoggerWarn deprecationWarning, ConsoleWarn deprecationWarning]"
    by (simp_all add: eval_simps unknown_host_env_def deprecated_ctx_def sample_locator_def)
  from missing_integration_aborts [OF disjI1 [OF refl] a(1) a(3)]
    missing_integration_aborts [OF disjI2 [OF refl] a(2) a(3)] b
  show ?thesis
    by (simp add: prod_eq_iff sample_defs unknown_host_env_def deprecated_ctx_def sample_locator_def)
qed

text \<open>
  C9: let the \<^verbatim>\<open>targetPath\<close> input escape the workspace root. Then either handler
  fails, and its run has called neither the serializer of the workspace directory
  nor the remote API. Once the locator is parsed the failure is an input error; in
  particular, with the integration found and a token present, it is the input
  error of the join itself, so the path is not clamped to the root.
\<close>

theorem escaping_target_path_rejected:
  assumes "h = handler_part_000 \<or> h = handler_gitlabIssue"
    and "escapes (workspacePath ctx) (targetPath (input ctx))"
  shows
    "(\<forall>ev \<in> set (fst (h env ctx)). \<not> is_filesystem ev \<and> \<not> is_network ev) \<and>
     snd (h env ctx) \<noteq> Inr () \<and>
     (\<forall>loc. parseRepoUrl env (repoUrl (input ctx)) = Inr loc \<longrightarrow>
        (\<exists>m. snd (h env ctx) = Inl (InputError m))) \<and>
     (\<forall>loc cfg. parseRepoUrl env (repoUrl (input ctx)) = Inr loc \<and>
        byHost env (host loc) = Some cfg \<and>
        (truthy (config_token cfg) \<or> truthy (token (input ctx))) \<longrightarrow>
        snd (h env ctx) = Inl (InputError ''Target path escapes the workspace root''))"
  using assms
  by (elim disjE)
     (auto simp: handler_defs run_simps run_splits determineProjectPath_eq
        resolveSafeChildPath_def split: sum.splits option.splits)

theorem escaping_target_path_rejected_witness:
  "targetPath (input escaping_ctx) = ''../../etc'' \<and>
   escapes (workspacePath escaping_ctx) (targetPath (input escaping_ctx)) \<and>
   handler_part_000 sample_env escaping_ctx =
     ([NewGitlab \<lparr>api_host = ''https://gitlab.com'', api_tokenType = ''token'',
                  api_token = Some ''cfg''\<rparr>],
      Inl (InputError ''Target path escapes the workspace root'')) \<and>
   handler_gitlabIssue sample_env escaping_ctx =
     ([NewGitlab \<lparr>api_host = ''https://gitlab.com'', api_tokenType = ''token'',
                  api_token = Some ''cfg''\<rparr>],
      Inl (InputError ''Target path escapes the workspace root''))"
proof -
  have a: "escapes (workspacePath escaping_ctx) (targetPath (input escaping_ctx))"
    by (simp add: sample_defs escaping_ctx_def sample_locator_def sample_config_def path_defs)
  have b: "parseRepoUrl sample_env (repoUrl (input escaping_ctx)) = Inr sample_locator \<and>
     byHost sample_env (host sample_locator) = Some sample_config \<and>
     (truthy (config_token sample_config) \<or> truthy (token (input escaping_ctx)))"
    by (simp add: sample_defs escaping_ctx_def sample_locator_def sample_config_def)
  have c: "fst (handler_part_000 sample_env escaping_ctx) =
     [NewGitlab \<lparr>api_host = ''https://gitlab.com'', api_tokenType = ''token'',
                 api_token = Some ''cfg''\<rparr>]"
    "fst (handler_gitlabIssue sample_env escaping_ctx) =
     [NewGitlab \<lparr>api_host = ''https://gitlab.com'', api_tokenType = ''token'',
                 api_token = Some ''cfg''\<rparr>]"
    by (simp_all add: eval_simps escaping_ctx_def sample_locator_def sample_config_def)
  have "snd (handler_part_000 sample_env escaping_ctx) =
      Inl (InputError ''Target path escapes the workspace root'')"
    using escaping_target_path_rejected [OF disjI1 [OF refl] a, of sample_env] b by blast
  moreover have "snd (handler_gitlabIssue sample_env escaping_ctx) =
      Inl (InputError ''Target path escapes the workspace root'')"
    using escaping_target_path_rejected [OF disjI2 [OF refl] a, of sample_env] b by blast
  ultimately show ?thesis
    using a c by (simp add: prod_eq_iff sample_defs escaping_ctx_def sample_locator_def sample_config_def)
qed

section \<open>Failures of the remote\<close>

lemma error_toString_contains_message:
  "\<exists>a b. error_toString e = a @ error_message e @ b"
proof (cases "error_name e = [] \<or> error_message e \<noteq> []")
  case True
  then show ?thesis
    by (auto simp: error_toString_def intro: exI [of _ "[]"]
          exI [of _ "error_name e @ '': ''"])
next
  case False
  then have "error_toString e = error_name e @ error_message e @ []"
    by (simp add: error_toString_def)
  then show ?thesis by blast
qed

text \<open>
  C8: let either handler have asked the remote for a project, and let that lookup
  have failed with \<open>e\<close>. Then the handler fails with \<open>e\<close> itself, not with an
  error made from it, and it has submitted no issue and written no output.
\<close>

theorem lookup_failure_propagates:
  assumes "h = handler_part_000 \<or> h = handler_gitlabIssue"
    and "ProjectsShow api p \<in> set (fst (h env ctx))"
    and "Projects_show env api p = Inl e"
  shows "snd (h env ctx) = Inl e \<and>
         created_issues (fst (h env ctx)) = [] \<and>
         outputs_of (fst (h env ctx)) = []"
  using assms
  by (elim disjE)
     (auto simp: handler_defs run_simps run_splits determineProjectPath_eq
        split: sum.splits option.splits if_splits)

theorem lookup_failure_propagates_witness:
  "handler_part_000 failing_lookup_env sample_ctx =
     ([NewGitlab sample_client,
       SerializeDirectoryContents ''/tmp/ws/a.md'',
       ProjectsShow sample_client ''org/repo''],
      Inl (ThrownError ''Error'' ''404 Project Not Found'')) \<and>
   handler_gitlabIssue failing_lookup_env sample_ctx =
     ([NewGitlab sample_client,
       SerializeDirectoryContents ''/tmp/ws/a.md'',
       ConsoleLog ''Getting file contents for '',
       ProjectsShow sample_client ''org/repo''],
      Inl (ThrownError ''Error'' ''404 Project Not Found''))"
proof -
  have a: "fst (handler_part_000 failing_lookup_env sample_ctx) =
     [NewGitlab sample_client, SerializeDirectoryContents ''/tmp/ws/a.md'',
      ProjectsShow sample_client ''org/repo'']"
    "fst (handler_gitlabIssue failing_lookup_env sample_ctx) =
     [NewGitlab sample_client, SerializeDirectoryContents ''/tmp/ws/a.md'',
      ConsoleLog ''Getting file contents for '', ProjectsShow sample_client ''org/repo'']"
    by (simp_all add: eval_simps failing_lookup_env_def sample_client_def)
  have b: "Projects_show failing_lookup_env sample_client ''org/repo'' =
      Inl (ThrownError ''Error'' ''404 Project Not Found'')"
    by (simp add: sample_defs failing_lookup_env_def sample_client_def)
  have "ProjectsShow sample_client ''org/repo'' \<in> set (fst (handler_part_000 failing_lookup_env sample_ctx))"
    by (simp add: a)
  from lookup_failure_propagates [OF disjI1 [OF refl] this b]
  have c: "snd (handler_part_000 failing_lookup_env sample_ctx) =
      Inl (ThrownError ''Error'' ''404 Project Not Found'')"
    by simp
  have "ProjectsShow sample_client ''org/repo'' \<in> set (fst (handler_gitlabIssue failing_lookup_env sample_ctx))"
    by (simp add: a)
  from lookup_failure_propagates [OF disjI2 [OF refl] this b]
  have d: "snd (handler_gitlabIssue failing_lookup_env sample_ctx) =
      Inl (ThrownError ''Error'' ''404 Project Not Found'')"
    by simp
  from a c d show ?thesis
    by (simp add: prod_eq_iff)
qed

text \<open>
  C7: let the locator be parsed, let either handler have submitted an issue, and let
  that call have failed with \<open>e\<close>. Then the handler fails with an input error, not
  with \<open>e\<close>, whose message is \<^verbatim>\<open>Creating the issue to\<close>, the project path,
  \<^verbatim>\<open>failed\<close> and the text of \<open>e\<close>; the text of \<open>e\<close> contains the message of
  \<open>e\<close>. The project path in the message is the one that was looked up.
\<close>

theorem creation_failure_is_input_error:
  assumes "h = handler_part_000 \<or> h = handler_gitlabIssue"
    and "parseRepoUrl env (repoUrl (input ctx)) = Inr loc"
    and "pp = (case projectid (input ctx) of
                 None \<Rightarrow> owner loc @ ''/'' @ repo loc
               | Some p \<Rightarrow> if p \<noteq> [] then p else owner loc @ ''/'' @ repo loc)"
    and "IssuesCreate api i iss \<in> set (fst (h env ctx))"
    and "Issues_create env api i iss = Inl e"
  shows
    "snd (h env ctx) =
       Inl (InputError (''Creating the issue to '' @ pp @ '' failed '' @ error_toString e)) \<and>
     (\<exists>a b. error_toString e = a @ error_message e @ b) \<and>
     lookups_of (fst (h env ctx)) = [pp]"
proof -
  have "snd (h env ctx) =
       Inl (InputError (''Creating the issue to '' @ pp @ '' failed '' @ error_toString e)) \<and>
     lookups_of (fst (h env ctx)) = [pp]"
    using assms
    by (elim disjE)
       (auto simp: handler_defs run_simps run_splits determineProjectPath_eq
          split: sum.splits option.splits if_splits)
  with error_toString_contains_message [of e] show ?thesis by blast
qed

theorem creation_failure_is_input_error_witness:
  "handler_part_000 failing_create_env deprecated_ctx =
     ([LoggerWarn deprecationWarning, ConsoleWarn deprecationWarning,
       NewGitlab sample_client, SerializeDirectoryContents ''/tmp/ws/a.md'',
       ProjectsShow sample_client ''group/legacy'', ConsoleLog ''got project'',
       ConsoleLog ''Trying to create issue '',
       IssuesCreate sample_client 7
         \<lparr>issue_title = ''Onboarding'', issue_description = Some ''X,Y'',
           issue_labels = [''onboarding'']\<rparr>],
      Inl (InputError ''Creating the issue to group/legacy failed Error: 403 Forbidden'')) \<and>
   handler_gitlabIssue failing_create_env sample_ctx =
     ([NewGitlab sample_client, SerializeDirectoryContents ''/tmp/ws/a.md'',
       ConsoleLog ''Getting file contents for '',
       ProjectsShow sample_client ''org/repo'', ConsoleLog ''Trying to create issue '',
       IssuesCreate sample_client 7
         \<lparr>issue_title = ''Onboarding'', issue_description = Some ''X'',
           issue_labels = [''onboarding'']\<rparr>],
      Inl (InputError ''Creating the issue to org/repo failed Error: 403 Forbidden''))"
proof -
  let ?e = "ThrownError ''Error'' ''403 Forbidden''"
  let ?i1 = "\<lparr>issue_title = ''Onboarding'', issue_description = Some ''X,Y'',
           issue_labels = [''onboarding'']\<rparr>"
  let ?i2 = "\<lparr>issue_title = ''Onboarding'', issue_description = Some ''X'',
           issue_labels = [''onboarding'']\<rparr>"
  have tr: "fst (handler_part_000 failing_create_env deprecated_ctx) =
     [LoggerWarn deprecationWarning, ConsoleWarn deprecationWarning,
       NewGitlab sample_client, SerializeDirectoryContents ''/tmp/ws/a.md'',
       ProjectsShow sample_client ''group/legacy'', ConsoleLog ''got project'',
       ConsoleLog ''Trying to create issue '', IssuesCreate sample_client 7 ?i1]"
    "fst (handler_gitlabIssue failing_create_env sample_ctx) =
     [NewGitlab sample_client, SerializeDirectoryContents ''/tmp/ws/a.md'',
       ConsoleLog ''Getting file contents for '',
       ProjectsShow sample_client ''org/repo'', ConsoleLog ''Trying to create issue '',
       IssuesCreate sample_client 7 ?i2]"
    by (simp_all add: eval_simps failing_create_env_def deprecated_ctx_def sample_client_def sample_locator_def)
  have parse: "parseRepoUrl failing_create_env (repoUrl (input deprecated_ctx)) = Inr sample_locator"
    "parseRepoUrl failing_create_env (repoUrl (input sample_ctx)) = Inr sample_locator"
    by (simp_all add: sample_defs failing_create_env_def deprecated_ctx_def sample_client_def sample_locator_def)
  have pp: "''group/legacy'' = (case projectid (input deprecated_ctx) of
         None \<Rightarrow> owner sample_locator @ ''/'' @ repo sample_locator
       | Some p \<Rightarrow> if p \<noteq> [] then p else owner sample_locator @ ''/'' @ repo sample_locator)"
    "''org/repo'' = (case projectid (input sample_ctx) of
         None \<Rightarrow> owner sample_locator @ ''/'' @ repo sample_locator
       | Some p \<Rightarrow> if p \<noteq> [] then p else owner sample_locator @ ''/'' @ repo sample_locator)"
    by (simp_all add: sample_defs failing_create_env_def deprecated_ctx_def sample_client_def sample_locator_def)
  have fails: "Issues_create failing_create_env sample_client 7 ?i1 = Inl ?e"
    "Issues_create failing_create_env sample_client 7 ?i2 = Inl ?e"
    by (simp_all add: sample_defs failing_create_env_def deprecated_ctx_def sample_client_def sample_locator_def)
  have "IssuesCreate sample_client 7 ?i1 \<in>
      set (fst (handler_part_000 failing_create_env deprecated_ctx))"
    by (simp add: tr)
  from creation_failure_is_input_error
    [OF disjI1 [OF refl] parse(1) pp(1) this fails(1)]
  have r1: "snd (handler_part_000 failing_create_env deprecated_ctx) =
     Inl (InputError ''Creating the issue to group/legacy failed Error: 403 Forbidden'')"
    by (simp add: error_toString_def)
  have "IssuesCreate sample_client 7 ?i2 \<in>
      set (fst (handler_gitlabIssue failing_create_env sample_ctx))"
    by (simp add: tr)
  from creation_failure_is_input_error
    [OF disjI2 [OF refl] parse(2) pp(2) this fails(2)]
  have r2: "snd (handler_gitlabIssue failing_create_env sample_ctx) =
     Inl (InputError ''Creating the issue to org/repo failed Error: 403 Forbidden'')"
    by (simp add: error_toString_def)
  from tr r1 r2 show ?thesis
    by (simp add: prod_eq_iff)
qed

section \<open>Outputs\<close>

text \<open>
  What a run that succeeds has done, in either version: it has written three
  outputs, the project path that it looked up under \<^verbatim>\<open>projectid\<close> and under
  \<^verbatim>\<open>projectPath\<close>, and under the third key the URL that the remote returned for
  the issue; the issue has the title of the input and the labels \<^verbatim>\<open>onboarding\<close>.
  The third key is \<^verbatim>\<open>mergeRequestUrl\<close> in \<^verbatim>\<open>part_000\<close> and \<^verbatim>\<open>issueUrl\<close> in
  \<^verbatim>\<open>gitlabIssue.ts\<close>.
\<close>

lemma successful_run:
  assumes "h = handler_part_000 \<and> key = ''mergeRequestUrl'' \<or>
           h = handler_gitlabIssue \<and> key = ''issueUrl''"
    and "snd (h env ctx) = Inr ()"
  shows "map fst (outputs_of (fst (h env ctx))) = [''projectid'', ''projectPath'', key] \<and>
         map snd (take 2 (outputs_of (fst (h env ctx)))) =
           lookups_of (fst (h env ctx)) @ lookups_of (fst (h env ctx)) \<and>
         map issue_title (created_issues (fst (h env ctx))) = [title (input ctx)] \<and>
         map issue_labels (created_issues (fst (h env ctx))) = [[''onboarding'']] \<and>
         (\<exists>api i iss r. IssuesCreate api i iss \<in> set (fst (h env ctx)) \<and>
            Issues_create env api i iss = Inr r \<and>
            map_of (outputs_of (fst (h env ctx))) key = Some (web_url r))"
  using assms
  by (elim disjE conjE)
     (auto simp: handler_defs run_simps run_splits determineProjectPath_eq
        split: sum.splits option.splits if_splits)

text \<open>
  C6, evaluated at a run that succeeds. In the sample setting both handlers succeed, submit an issue with the title of the input and the labels
  \<^verbatim>\<open>onboarding\<close>, and write three outputs, the project path twice and the URL that
  the remote returned. The later version writes the URL under \<^verbatim>\<open>issueUrl\<close>, a key
  of its output schema. The earlier one writes it under \<^verbatim>\<open>mergeRequestUrl\<close>, while
  its output schema declares \<^verbatim>\<open>mergeRequestURL\<close>: the key written is not a key of
  the schema.
\<close>

theorem part_000_writes_undeclared_output_key:
  "snd (handler_part_000 sample_env sample_ctx) = Inr () \<and>
   outputs_of (fst (handler_part_000 sample_env sample_ctx)) =
     [(''projectid'', ''org/repo''), (''projectPath'', ''org/repo''),
      (''mergeRequestUrl'', ''https://gitlab.com/org/repo/-/issues/1'')] \<and>
   ''mergeRequestUrl'' \<notin> set output_schema_part_000 \<and>
   map (\<lambda>iss. (issue_title iss, issue_labels iss))
     (created_issues (fst (handler_part_000 sample_env sample_ctx))) =
     [(''Onboarding'', [''onboarding''])] \<and>
   snd (handler_gitlabIssue sample_env sample_ctx) = Inr () \<and>
   outputs_of (fst (handler_gitlabIssue sample_env sample_ctx)) =
     [(''projectid'', ''org/repo''), (''projectPath'', ''org/repo''),
      (''issueUrl'', ''https://gitlab.com/org/repo/-/issues/1'')] \<and>
   map fst (outputs_of (fst (handler_gitlabIssue sample_env sample_ctx))) =
     output_schema_gitlabIssue"
  by (simp add: eval_simps output_schema_part_000_def output_schema_gitlabIssue_def)

text \<open>
  C10: a run of either handler that does not succeed has written no output at all,
  whatever made it fail; and in every run, each output comes after a call of
  \<^verbatim>\<open>api.Issues.create\<close> that the remote answered.
\<close>

theorem no_output_unless_created:
  assumes "h = handler_part_000 \<or> h = handler_gitlabIssue"
  shows "(snd (h env ctx) \<noteq> Inr () \<longrightarrow> outputs_of (fst (h env ctx)) = []) \<and>
         outputs_follow_creation env False (fst (h env ctx))"
  using assms
  by (elim disjE)
     (auto simp: handler_defs run_simps run_splits determineProjectPath_eq
        split: sum.splits option.splits if_splits)

theorem no_output_unless_created_witness:
  "snd (handler_part_000 failing_create_env sample_ctx) =
     Inl (InputError ''Creating the issue to org/repo failed Error: 403 Forbidden'') \<and>
   outputs_of (fst (handler_part_000 failing_create_env sample_ctx)) = [] \<and>
   snd (handler_gitlabIssue failing_lookup_env sample_ctx) =
     Inl (ThrownError ''Error'' ''404 Project Not Found'') \<and>
   outputs_of (fst (handler_gitlabIssue failing_lookup_env sample_ctx)) = [] \<and>
   outputs_of (fst (handler_gitlabIssue sample_env sample_ctx)) =
     [(''projectid'', ''org/repo''), (''projectPath'', ''org/repo''),
      (''issueUrl'', ''https://gitlab.com/org/repo/-/issues/1'')] \<and>
   outputs_follow_creation sample_env False (fst (handler_gitlabIssue sample_env sample_ctx))"
proof -
  have a: "snd (handler_part_000 failing_create_env sample_ctx) =
     Inl (InputError ''Creating the issue to org/repo failed Error: 403 Forbidden'')"
    "snd (handler_gitlabIssue failing_lookup_env sample_ctx) =
     Inl (ThrownError ''Error'' ''404 Project Not Found'')"
    "outputs_of (fst (handler_gitlabIssue sample_env sample_ctx)) =
     [(''projectid'', ''org/repo''), (''projectPath'', ''org/repo''),
      (''issueUrl'', ''https://gitlab.com/org/repo/-/issues/1'')]"
    by (simp_all add: eval_simps failing_create_env_def failing_lookup_env_def error_toString_def)
  from no_output_unless_created [OF disjI1 [OF refl], of failing_create_env sample_ctx]
    no_output_unless_created [OF disjI2 [OF refl], of failing_lookup_env sample_ctx]
    no_output_unless_created [OF disjI2 [OF refl], of sample_env sample_ctx] a
  show ?thesis by simp
qed

end
